theory Spec2Isabelle
  imports Complex_Main
begin

section \<open>The unit status analyzer of StorEdge DaVinci Miscompare\<close>

text \<open>
  This theory embeds \<^verbatim>\<open>src/unit_status_analyzer.py\<close>: the three loaders, the status
  resolver, the lock expectation, the miscompare detector, the summary and the pipeline
  \<^verbatim>\<open>run_analysis\<close> of the class \<^verbatim>\<open>UnitStatusAnalyzer\<close>.

  Strings are lists of 8-bit characters, read as code points below 256. Status values are
  strings, as in the source: the analyzer compares and builds them as text.
\<close>

subsection \<open>Frames as the analyzer reads them\<close>

text \<open>
  The analyzer reads a cell of a pandas frame in two ways only: as text
  (\<^verbatim>\<open>astype(str)\<close>) and as a number (\<^verbatim>\<open>pd.to_numeric(errors='coerce')\<close>, where
  \<open>None\<close> is NaN). A cell is the pair of these two readings, whatever pandas stores.
  A frame has its column names and its rows; a row gives a cell for each column name and
  is read only at names of \<open>columns\<close>. The frame is what \<^verbatim>\<open>pd.read_csv\<close> or
  \<^verbatim>\<open>pd.read_excel\<close> returned: the trial of encodings before it is file input and is
  not part of the model.
\<close>

record cell =
  astype_str :: string
  to_numeric :: "rat option"

record frame =
  columns :: "string list"
  rows :: "(string \<Rightarrow> cell) list"

subsection \<open>Errors and log records\<close>

text \<open>
  \<open>ValueError_missing_columns f cs\<close> is the \<^verbatim>\<open>ValueError\<close> whose message is
  "Missing required columns in f: cs". \<open>KeyError\<close> is what indexing a frame by a column
  it does not have raises.
\<close>

datatype error =
    ValueError_missing_columns string "string list"
  | KeyError

text \<open>
  The records that the module's logger receives at level WARNING or ERROR, each with the
  values its message is formatted from. Records of level INFO are left out.
\<close>

datatype levelname = WARNING | ERROR

datatype log_record =
    Found_unmapped_statuses "string list"
  | Found_invalid_lock_statuses "string list"
  | Occupied_not_in_rentroll string
  | Rentroll_not_in_units "string set"
  | Error_loading_file string error
  | Analysis_failed error

fun level :: "log_record \<Rightarrow> levelname" where
  "level (Found_unmapped_statuses _) = WARNING"
| "level (Found_invalid_lock_statuses _) = WARNING"
| "level (Occupied_not_in_rentroll _) = WARNING"
| "level (Rentroll_not_in_units _) = WARNING"
| "level (Error_loading_file _ _) = ERROR"
| "level (Analysis_failed _) = ERROR"

subsection \<open>String and series operations\<close>

text \<open>Python's \<^verbatim>\<open>str.isspace\<close> on one character below 256.\<close>

definition isspace :: "char \<Rightarrow> bool" where
  "isspace c = ((of_char c :: nat) \<in> set [9, 10, 11, 12, 13, 28, 29, 30, 31, 32, 133, 160])"

text \<open>\<^verbatim>\<open>str.strip()\<close>: whitespace is removed at both ends.\<close>

definition strip :: "string \<Rightarrow> string" where
  "strip s = rev (dropWhile isspace (rev (dropWhile isspace s)))"

text \<open>
  \<^verbatim>\<open>str.upper()\<close> below 256: the letters a to z and the accented letters move down by
  32, the sharp s becomes SS. The micro sign and y with diaeresis have their capitals
  above 255 and are kept as they are here.
\<close>

definition upper_char :: "char \<Rightarrow> string" where
  "upper_char c =
     (let n = (of_char c :: nat) in
      if 97 \<le> n \<and> n \<le> 122 then [char_of (n - 32)]
      else if n = 223 then ''SS''
      else if 224 \<le> n \<and> n \<le> 254 \<and> n \<noteq> 247 then [char_of (n - 32)]
      else [c])"

definition upper :: "string \<Rightarrow> string" where
  "upper s = concat (map upper_char s)"

text \<open>\<^verbatim>\<open>Series.unique()\<close>: the distinct values in order of first appearance.\<close>

definition unique :: "'a list \<Rightarrow> 'a list" where
  "unique xs = rev (remdups (rev xs))"

text \<open>
  \<^verbatim>\<open>df.set_index(k)[v].to_dict()\<close> on the pairs of the two columns: the dictionary
  is filled in row order, so a later row with the same key replaces an earlier one.
\<close>

definition to_dict :: "('k \<times> 'v) list \<Rightarrow> ('k \<rightharpoonup> 'v)" where
  "to_dict kvs = foldl (\<lambda>m (k, v). m(k \<mapsto> v)) Map.empty kvs"

text \<open>\<^verbatim>\<open>Series.fillna(v)\<close> on a series whose missing values are \<open>None\<close>.\<close>

definition fillna :: "'a \<Rightarrow> 'a option list \<Rightarrow> 'a list" where
  "fillna v xs = map (\<lambda>x. case x of None \<Rightarrow> v | Some y \<Rightarrow> y) xs"

text \<open>\<^verbatim>\<open>Series.value_counts().to_dict()\<close>: each value that occurs, with its count.\<close>

definition value_counts :: "'a list \<Rightarrow> ('a \<rightharpoonup> nat)" where
  "value_counts xs = (\<lambda>k. if k \<in> set xs then Some (count_list xs k) else None)"

text \<open>\<^verbatim>\<open>str.lower()\<close> below 256: the capital letters move up by 32.\<close>

definition lower_char :: "char \<Rightarrow> char" where
  "lower_char c =
     (let n = (of_char c :: nat) in
      if 65 \<le> n \<and> n \<le> 90 then char_of (n + 32)
      else if 192 \<le> n \<and> n \<le> 222 \<and> n \<noteq> 215 then char_of (n + 32)
      else c)"

definition lower :: "string \<Rightarrow> string" where
  "lower s = map lower_char s"

text \<open>\<^verbatim>\<open>str.strip(chars)\<close>: the characters of \<open>chars\<close> are removed at both ends.\<close>

definition strip_chars :: "string \<Rightarrow> string \<Rightarrow> string" where
  "strip_chars chars s =
     rev (dropWhile (\<lambda>c. c \<in> set chars) (rev (dropWhile (\<lambda>c. c \<in> set chars) s)))"

text \<open>\<^verbatim>\<open>sub in s\<close> on strings: \<open>sub\<close> occurs in \<open>s\<close> as a block.\<close>

fun contains :: "string \<Rightarrow> string \<Rightarrow> bool" where
  "contains sub [] = (sub = [])"
| "contains sub (c # cs) = (take (length sub) (c # cs) = sub \<or> contains sub cs)"

subsection \<open>The tables of the analyzer\<close>

text \<open>
  Each table is a list of rows; a row is a record of the columns that the analyzer reads
  later. The rows of the result grow column by column, as the source adds them.
\<close>

record unit_row =
  Unit :: string

record units_row = unit_row +
  Unit_Status :: string

record rentroll_row = unit_row +
  Days_Past_Due_Clean :: rat
  Payment_Status :: string

record locks_row = unit_row +
  Lock_Status :: string

record status_row = units_row +
  Final_Status :: string

record lock_status_row = status_row +
  Actual_Lock_Status :: string
  Expected_Lock_Status :: string

record miscompare_row = lock_status_row +
  Is_Miscompare :: bool

record analysis_row = miscompare_row +
  Miscompare_Severity :: string

text \<open>The object's fields; \<open>None\<close> is Python's \<^verbatim>\<open>None\<close>.\<close>

record analyzer =
  units_df :: "units_row list option"
  rentroll_df :: "rentroll_row list option"
  locks_df :: "locks_row list option"
  master_df :: "analysis_row list option"

definition valid_lock_statuses :: "string list" where
  "valid_lock_statuses =
     [''Assigned Vacant'', ''Tenant Using Lock'', ''Assigned Auction'', ''Assigned Overlock'']"

definition init :: analyzer where
  "init = \<lparr>units_df = None, rentroll_df = None, locks_df = None, master_df = None\<rparr>"

subsection \<open>Loading the three files\<close>

definition status_mapping :: "string \<rightharpoonup> string" where
  "status_mapping = map_of [(''OCC'', ''Occupied''), (''VAC'', ''Vacant'')]"

text \<open>The column \<^verbatim>\<open>Status_Clean\<close> of one row of the units frame.\<close>

definition Status_Clean :: "(string \<Rightarrow> cell) \<Rightarrow> string" where
  "Status_Clean r = upper (take 3 (astype_str (r ''Status'')))"

text \<open>
  \<^verbatim>\<open>load_units_file\<close>. The two required names are looked up as they are written. The
  statuses that \<open>status_mapping\<close> does not know are reported once and filled with
  \<open>''Unknown''\<close>; when there is none, the series has no missing value and \<open>fillna\<close>
  changes nothing. The result keeps the two columns that \<^verbatim>\<open>determine_unit_status\<close>
  selects.
\<close>

definition load_units_file :: "frame \<Rightarrow> log_record list \<times> (error + units_row list)" where
  "load_units_file df =
     (let missing_cols = filter (\<lambda>col. col \<notin> set (columns df)) [''Unit'', ''Status''] in
      if missing_cols \<noteq> [] then
        (let e = ValueError_missing_columns ''units.csv'' missing_cols
         in ([Error_loading_file ''units'' e], Inl e))
      else
        (let mapped = map (\<lambda>r. status_mapping (Status_Clean r)) (rows df);
             unmapped = filter (\<lambda>r. status_mapping (Status_Clean r) = None) (rows df);
             warnings = (if unmapped \<noteq> []
                         then [Found_unmapped_statuses (unique (map Status_Clean unmapped))]
                         else [])
         in (warnings,
             Inr (map (\<lambda>(r, s). \<lparr>Unit = strip (astype_str (r ''Unit'')), Unit_Status = s\<rparr>)
                      (zip (rows df) (fillna ''Unknown'' mapped))))))"

definition unit_col_candidates :: "string list" where
  "unit_col_candidates =
     [''Unit'', ''UNIT'', [CHR 0x22] @ ''Unit'' @ [CHR 0x22], [CHR 0x22] @ ''UNIT'' @ [CHR 0x22]]"

definition days_col_candidates :: "string list" where
  "days_col_candidates =
     [''Days Past Due'', ''DAYS PAST DUE'',
      [CHR 0x22] @ ''Days Past Due'' @ [CHR 0x22], [CHR 0x22] @ ''DAYS PAST DUE'' @ [CHR 0x22]]"

text \<open>
  \<^verbatim>\<open>load_rentroll_file\<close>. Each of the two columns may be spelt in four ways; the first
  spelling of the list that the frame has is the column read. A blank or unparsable number
  of days counts as 0.
\<close>

definition load_rentroll_file :: "frame \<Rightarrow> log_record list \<times> (error + rentroll_row list)" where
  "load_rentroll_file df =
     (let available_cols = columns df;
          unit_col_found = list_ex (\<lambda>col. col \<in> set available_cols) unit_col_candidates;
          days_col_found = list_ex (\<lambda>col. col \<in> set available_cols) days_col_candidates;
          missing_cols = (if \<not> unit_col_found then [''Unit''] else [])
                       @ (if \<not> days_col_found then [''Days Past Due''] else [])
      in
      if missing_cols \<noteq> [] then
        (let e = ValueError_missing_columns ''rentroll.csv'' missing_cols
         in ([Error_loading_file ''rentroll'' e], Inl e))
      else
        (case (find (\<lambda>col. col \<in> set (columns df)) unit_col_candidates,
               find (\<lambda>col. col \<in> set (columns df)) days_col_candidates) of
           (Some unit_col, Some days_col) \<Rightarrow>
              ([], Inr (map (\<lambda>r.
                     let x = (case to_numeric (r days_col) of None \<Rightarrow> 0 | Some d \<Rightarrow> d)
                     in \<lparr>Unit = strip (astype_str (r unit_col)),
                         Days_Past_Due_Clean = x,
                         Payment_Status = (if x > 0 then ''Delinquent'' else ''Current'')\<rparr>)
                   (rows df)))
         | _ \<Rightarrow> ([Error_loading_file ''rentroll'' KeyError], Inl KeyError)))"

text \<open>
  \<^verbatim>\<open>load_locks_file\<close>. The two required names are looked up as they are written. A
  lock status outside \<open>valid_lock_statuses\<close> is reported and kept.
\<close>

definition load_locks_file :: "frame \<Rightarrow> log_record list \<times> (error + locks_row list)" where
  "load_locks_file df =
     (let missing_cols = filter (\<lambda>col. col \<notin> set (columns df)) [''Unit Number'', ''Status''] in
      if missing_cols \<noteq> [] then
        (let e = ValueError_missing_columns ''locks.csv'' missing_cols
         in ([Error_loading_file ''locks'' e], Inl e))
      else
        (let loaded = map (\<lambda>r. \<lparr>Unit = strip (astype_str (r ''Unit Number'')),
                                 Lock_Status = strip (astype_str (r ''Status''))\<rparr>) (rows df);
             invalid_statuses = filter (\<lambda>l. Lock_Status l \<notin> set valid_lock_statuses) loaded;
             warnings = (if invalid_statuses \<noteq> []
                         then [Found_invalid_lock_statuses (unique (map Lock_Status invalid_statuses))]
                         else [])
         in (warnings, Inr loaded)))"

subsection \<open>Status resolver\<close>

text \<open>
  \<^verbatim>\<open>get_final_status\<close>, the function applied to each row in
  \<^verbatim>\<open>determine_unit_status\<close>: the status it returns, and the warning it logs on the way.
\<close>

definition get_final_status ::
  "(string \<rightharpoonup> string) \<Rightarrow> 'a units_row_scheme \<Rightarrow> log_record list \<times> string" where
  "get_final_status rentroll_mapping row =
     (let unit = Unit row; unit_status = Unit_Status row in
      if unit_status = ''Vacant'' then ([], ''Vacant'')
      else if unit_status = ''Occupied'' then
        (case rentroll_mapping unit of
           Some payment_status \<Rightarrow> ([], ''Occupied-'' @ payment_status)
         | None \<Rightarrow> ([Occupied_not_in_rentroll unit], ''Vacant''))
      else ([], ''Unknown''))"

text \<open>
  \<^verbatim>\<open>determine_unit_status\<close>: one row of the result for each row of the units table, in
  its order. The frame method \<^verbatim>\<open>apply(..., axis=1)\<close> is the map over the rows; what
  pandas does with it on a frame without rows is not modelled.
\<close>

definition determine_unit_status ::
  "units_row list \<Rightarrow> rentroll_row list \<Rightarrow> log_record list \<times> status_row list" where
  "determine_unit_status units rentroll =
     (let rentroll_mapping = to_dict (map (\<lambda>r. (Unit r, Payment_Status r)) rentroll);
          applied = map (get_final_status rentroll_mapping) units;
          result_df = map (\<lambda>(row, res). \<lparr>Unit = Unit row, Unit_Status = Unit_Status row,
                                           Final_Status = snd res\<rparr>) (zip units applied);
          units_in_rentroll_not_units = set (map Unit rentroll) - set (map Unit units)
      in (concat (map fst applied)
            @ (if units_in_rentroll_not_units \<noteq> {}
               then [Rentroll_not_in_units units_in_rentroll_not_units] else []),
          result_df))"

subsection \<open>Lock expectation\<close>

definition get_expected_lock_status :: "string \<Rightarrow> string" where
  "get_expected_lock_status final_status =
     (if final_status = ''Vacant'' then ''Assigned Vacant''
      else if final_status = ''Occupied-Current'' then ''Tenant Using Lock''
      else if final_status = ''Occupied-Delinquent'' then ''Assigned Overlock or Assigned Auction''
      else ''Unknown'')"

text \<open>
  \<^verbatim>\<open>add_lock_status\<close>: a unit that the locks table does not have gets
  \<open>''No Lock Assigned''\<close>.
\<close>

definition add_lock_status :: "status_row list \<Rightarrow> locks_row list \<Rightarrow> lock_status_row list" where
  "add_lock_status units locks =
     (let locks_mapping = to_dict (map (\<lambda>l. (Unit l, Lock_Status l)) locks);
          actual = fillna ''No Lock Assigned'' (map (\<lambda>row. locks_mapping (Unit row)) units)
      in map (\<lambda>(row, a). \<lparr>Unit = Unit row, Unit_Status = Unit_Status row,
                            Final_Status = Final_Status row,
                            Actual_Lock_Status = a,
                            Expected_Lock_Status = get_expected_lock_status (Final_Status row)\<rparr>)
             (zip units actual))"

subsection \<open>Miscompare detector\<close>

definition is_miscompare :: "'a lock_status_row_scheme \<Rightarrow> bool" where
  "is_miscompare row =
     (let actual = Actual_Lock_Status row; final_status = Final_Status row in
      if final_status = ''Occupied-Delinquent'' then
        actual \<notin> set [''Assigned Overlock'', ''Assigned Auction'']
      else if final_status = ''Vacant'' then actual \<noteq> ''Assigned Vacant''
      else if final_status = ''Occupied-Current'' then actual \<noteq> ''Tenant Using Lock''
      else False)"

definition get_miscompare_severity :: "'a miscompare_row_scheme \<Rightarrow> string" where
  "get_miscompare_severity row =
     (if \<not> Is_Miscompare row then ''No Issue''
      else
        (let actual = Actual_Lock_Status row; final_status = Final_Status row in
         if final_status = ''Vacant'' \<and> actual \<in> set [''Tenant Using Lock'', ''Assigned Overlock'']
         then ''HIGH - Vacant unit with tenant lock''
         else if final_status = ''Occupied-Current''
                 \<and> actual \<in> set [''Assigned Vacant'', ''Assigned Overlock'']
         then ''HIGH - Current tenant without proper lock''
         else if final_status = ''Occupied-Delinquent'' \<and> actual = ''Assigned Vacant''
         then ''HIGH - Delinquent unit without lock''
         else ''MEDIUM - Lock status mismatch''))"

text \<open>
  \<^verbatim>\<open>detect_miscompares\<close>: the flag is computed for every row first, the severity
  then reads the flag.
\<close>

definition detect_miscompares :: "lock_status_row list \<Rightarrow> analysis_row list" where
  "detect_miscompares df =
     (let flagged = map (\<lambda>row. \<lparr>Unit = Unit row, Unit_Status = Unit_Status row,
                                 Final_Status = Final_Status row,
                                 Actual_Lock_Status = Actual_Lock_Status row,
                                 Expected_Lock_Status = Expected_Lock_Status row,
                                 Is_Miscompare = is_miscompare row\<rparr>) df
      in map (\<lambda>row. \<lparr>Unit = Unit row, Unit_Status = Unit_Status row,
                       Final_Status = Final_Status row,
                       Actual_Lock_Status = Actual_Lock_Status row,
                       Expected_Lock_Status = Expected_Lock_Status row,
                       Is_Miscompare = Is_Miscompare row,
                       Miscompare_Severity = get_miscompare_severity row\<rparr>) flagged)"

subsection \<open>Summary\<close>

text \<open>
  The rate is a float64 in the source. The model does not fix float64 arithmetic: the
  quotient of two integers (\<open>truediv\<close>) and the product of a float by an integer
  (\<open>mul\<close>) are the operations of the runtime, taken as parameters. The sum of the
  Boolean column adds 1 for each \<open>True\<close>.
\<close>

record 'f summary =
  total_units :: int
  unit_status_breakdown :: "string \<rightharpoonup> nat"
  lock_status_breakdown :: "string \<rightharpoonup> nat"
  miscompare_count :: int
  miscompare_rate :: 'f
  severity_breakdown :: "string \<rightharpoonup> nat"

definition generate_summary_report ::
  "(int \<Rightarrow> int \<Rightarrow> 'f) \<Rightarrow> ('f \<Rightarrow> int \<Rightarrow> 'f) \<Rightarrow> analysis_row list \<Rightarrow> 'f summary" where
  "generate_summary_report truediv mul df =
     \<lparr>total_units = int (length df),
      unit_status_breakdown = value_counts (map Final_Status df),
      lock_status_breakdown = value_counts (map Actual_Lock_Status df),
      miscompare_count = sum_list (map (\<lambda>row. if Is_Miscompare row then 1 else 0) df),
      miscompare_rate =
        mul (truediv (sum_list (map (\<lambda>row. if Is_Miscompare row then 1 else 0) df))
                     (int (length df))) 100,
      severity_breakdown = value_counts (map Miscompare_Severity df)\<rparr>"

subsection \<open>The pipeline\<close>

text \<open>
  \<^verbatim>\<open>run_analysis\<close> on an analyzer object and the three frames read from the three
  files: the log records, the table or the exception that leaves the method, and the
  object afterwards. Each field is assigned as soon as its value is there, so a failing
  run keeps the fields assigned before the failure. The summary that the method computes
  feeds a record of level INFO only.
\<close>

definition run_analysis ::
  "analyzer \<Rightarrow> frame \<Rightarrow> frame \<Rightarrow> frame
     \<Rightarrow> log_record list \<times> (error + analysis_row list) \<times> analyzer" where
  "run_analysis self units_file rentroll_file locks_file =
     (case load_units_file units_file of
        (log1, Inl e) \<Rightarrow> (log1 @ [Analysis_failed e], Inl e, self)
      | (log1, Inr units) \<Rightarrow>
     (let self1 = self\<lparr>units_df := Some units\<rparr> in
      case load_rentroll_file rentroll_file of
        (log2, Inl e) \<Rightarrow> (log1 @ log2 @ [Analysis_failed e], Inl e, self1)
      | (log2, Inr rentroll) \<Rightarrow>
     (let self2 = self1\<lparr>rentroll_df := Some rentroll\<rparr> in
      case load_locks_file locks_file of
        (log3, Inl e) \<Rightarrow> (log1 @ log2 @ log3 @ [Analysis_failed e], Inl e, self2)
      | (log3, Inr locks) \<Rightarrow>
     (let self3 = self2\<lparr>locks_df := Some locks\<rparr>;
          (log4, units_with_status) = determine_unit_status units rentroll;
          units_with_locks = add_lock_status units_with_status locks;
          master = detect_miscompares units_with_locks
      in (log1 @ log2 @ log3 @ log4, Inr master, self3\<lparr>master_df := Some master\<rparr>)))))"

subsection \<open>The column check of the web application\<close>

text \<open>
  \<^verbatim>\<open>validate_csv_file\<close> of \<^verbatim>\<open>streamlit_app.py\<close> decides whether an uploaded file
  goes on to \<^verbatim>\<open>run_analysis\<close>. Its check of the columns, on the frame it read: whether
  the file is accepted, and the columns its message names as missing. A column stands for
  an expected one when, without surrounding whitespace and double quotes and in lower
  case, it contains the expected name in lower case.
\<close>

definition validate_csv_file :: "frame \<Rightarrow> string list \<Rightarrow> bool \<times> string list" where
  "validate_csv_file df expected_columns =
     (let available_cols = map (\<lambda>col. strip_chars [CHR 0x22] (strip col)) (columns df);
          missing_cols = filter (\<lambda>expected_col.
              \<not> list_ex (\<lambda>col. contains (lower expected_col) (lower col)) available_cols)
            expected_columns
      in (missing_cols = [], missing_cols))"

subsection \<open>Example data\<close>

text \<open>A cell read from text that is no number, and a cell that holds a number.\<close>

definition text_cell :: "string \<Rightarrow> cell" where
  "text_cell s = \<lparr>astype_str = s, to_numeric = None\<rparr>"

definition number_cell :: "string \<Rightarrow> rat \<Rightarrow> cell" where
  "number_cell s x = \<lparr>astype_str = s, to_numeric = Some x\<rparr>"

text \<open>A row from its cells by column name; a name that the row does not have reads as NaN.\<close>

definition row_of :: "(string \<times> cell) list \<Rightarrow> string \<Rightarrow> cell" where
  "row_of kvs col = (case map_of kvs col of Some c \<Rightarrow> c | None \<Rightarrow> text_cell ''nan'')"

text \<open>
  Five units: one occupied without a rentroll row, one delinquent without a lock, one
  with a status that is neither occupied nor vacant, one vacant with its lock, one
  delinquent with an overlock. The rentroll has an entry for a unit that is no unit.
\<close>

definition example_units :: frame where
  "example_units = \<lparr>columns = [''Unit'', ''Status''],
     rows = [row_of [(''Unit'', text_cell '' A1 ''), (''Status'', text_cell ''Occupied - Tenant'')],
             row_of [(''Unit'', text_cell ''B2''), (''Status'', text_cell ''occ'')],
             row_of [(''Unit'', text_cell ''C3''), (''Status'', text_cell ''Reserved'')],
             row_of [(''Unit'', text_cell ''D4''), (''Status'', text_cell ''Vacant - Available'')],
             row_of [(''Unit'', text_cell ''E5''), (''Status'', text_cell ''OCCUPIED'')]]\<rparr>"

definition example_rentroll :: frame where
  "example_rentroll = \<lparr>columns = [''UNIT'', ''DAYS PAST DUE''],
     rows = [row_of [(''UNIT'', text_cell ''B2''), (''DAYS PAST DUE'', number_cell ''45'' 45)],
             row_of [(''UNIT'', text_cell ''E5 ''), (''DAYS PAST DUE'', number_cell ''10'' 10)],
             row_of [(''UNIT'', text_cell ''Z9''), (''DAYS PAST DUE'', text_cell ''nan'')]]\<rparr>"

definition example_locks :: frame where
  "example_locks = \<lparr>columns = [''Unit Number'', ''Status''],
     rows = [row_of [(''Unit Number'', text_cell ''A1''), (''Status'', text_cell ''Tenant Using Lock'')],
             row_of [(''Unit Number'', text_cell ''C3''), (''Status'', text_cell ''Assigned Vacant'')],
             row_of [(''Unit Number'', text_cell ''D4''), (''Status'', text_cell ''Assigned Vacant '')],
             row_of [(''Unit Number'', text_cell ''E5''), (''Status'', text_cell ''Assigned Overlock'')]]\<rparr>"

definition example_units_rows :: "units_row list" where
  "example_units_rows =
     [\<lparr>Unit = ''A1'', Unit_Status = ''Occupied''\<rparr>,
      \<lparr>Unit = ''B2'', Unit_Status = ''Occupied''\<rparr>,
      \<lparr>Unit = ''C3'', Unit_Status = ''Unknown''\<rparr>,
      \<lparr>Unit = ''D4'', Unit_Status = ''Vacant''\<rparr>,
      \<lparr>Unit = ''E5'', Unit_Status = ''Occupied''\<rparr>]"

definition example_rentroll_rows :: "rentroll_row list" where
  "example_rentroll_rows =
     [\<lparr>Unit = ''B2'', Days_Past_Due_Clean = 45, Payment_Status = ''Delinquent''\<rparr>,
      \<lparr>Unit = ''E5'', Days_Past_Due_Clean = 10, Payment_Status = ''Delinquent''\<rparr>,
      \<lparr>Unit = ''Z9'', Days_Past_Due_Clean = 0, Payment_Status = ''Current''\<rparr>]"

definition example_locks_rows :: "locks_row list" where
  "example_locks_rows =
     [\<lparr>Unit = ''A1'', Lock_Status = ''Tenant Using Lock''\<rparr>,
      \<lparr>Unit = ''C3'', Lock_Status = ''Assigned Vacant''\<rparr>,
      \<lparr>Unit = ''D4'', Lock_Status = ''Assigned Vacant''\<rparr>,
      \<lparr>Unit = ''E5'', Lock_Status = ''Assigned Overlock''\<rparr>]"

definition example_table :: "analysis_row list" where
  "example_table =
     [\<lparr>Unit = ''A1'', Unit_Status = ''Occupied'', Final_Status = ''Vacant'',
       Actual_Lock_Status = ''Tenant Using Lock'', Expected_Lock_Status = ''Assigned Vacant'',
       Is_Miscompare = True, Miscompare_Severity = ''HIGH - Vacant unit with tenant lock''\<rparr>,
      \<lparr>Unit = ''B2'', Unit_Status = ''Occupied'', Final_Status = ''Occupied-Delinquent'',
       Actual_Lock_Status = ''No Lock Assigned'',
       Expected_Lock_Status = ''Assigned Overlock or Assigned Auction'',
       Is_Miscompare = True, Miscompare_Severity = ''MEDIUM - Lock status mismatch''\<rparr>,
      \<lparr>Unit = ''C3'', Unit_Status = ''Unknown'', Final_Status = ''Unknown'',
       Actual_Lock_Status = ''Assigned Vacant'', Expected_Lock_Status = ''Unknown'',
       Is_Miscompare = False, Miscompare_Severity = ''No Issue''\<rparr>,
      \<lparr>Unit = ''D4'', Unit_Status = ''Vacant'', Final_Status = ''Vacant'',
       Actual_Lock_Status = ''Assigned Vacant'', Expected_Lock_Status = ''Assigned Vacant'',
       Is_Miscompare = False, Miscompare_Severity = ''No Issue''\<rparr>,
      \<lparr>Unit = ''E5'', Unit_Status = ''Occupied'', Final_Status = ''Occupied-Delinquent'',
       Actual_Lock_Status = ''Assigned Overlock'',
       Expected_Lock_Status = ''Assigned Overlock or Assigned Auction'',
       Is_Miscompare = False, Miscompare_Severity = ''No Issue''\<rparr>]"

definition example_log :: "log_record list" where
  "example_log =
     [Found_unmapped_statuses [''RES''], Occupied_not_in_rentroll ''A1'',
      Rentroll_not_in_units {''Z9''}]"

definition example_analyzer :: analyzer where
  "example_analyzer =
     \<lparr>units_df = Some example_units_rows, rentroll_df = Some example_rentroll_rows,
      locks_df = Some example_locks_rows, master_df = Some example_table\<rparr>"

text \<open>A units file that names the unit \<open>A1\<close> on two rows.\<close>

definition duplicate_units :: frame where
  "duplicate_units = \<lparr>columns = [''Unit'', ''Status''],
     rows = [row_of [(''Unit'', text_cell ''A1''), (''Status'', text_cell ''Vacant'')],
             row_of [(''Unit'', text_cell ''A1 ''), (''Status'', text_cell ''Vacant'')]]\<rparr>"

text \<open>Files whose headers are in capitals, and a rentroll header with a leading blank.\<close>

definition capital_units :: frame where
  "capital_units = \<lparr>columns = [''UNIT'', ''STATUS''],
     rows = [row_of [(''UNIT'', text_cell ''A1''), (''STATUS'', text_cell ''Vacant'')]]\<rparr>"

definition capital_locks :: frame where
  "capital_locks = \<lparr>columns = [''UNIT NUMBER'', ''STATUS''],
     rows = [row_of [(''UNIT NUMBER'', text_cell ''A1''), (''STATUS'', text_cell ''Assigned Vacant'')]]\<rparr>"

definition capital_rentroll :: frame where
  "capital_rentroll = \<lparr>columns = [''UNIT'', ''DAYS PAST DUE''],
     rows = [row_of [(''UNIT'', text_cell ''A1''), (''DAYS PAST DUE'', number_cell ''0'' 0)]]\<rparr>"

definition blank_rentroll :: frame where
  "blank_rentroll = \<lparr>columns = ['' Unit'', ''Days Past Due''],
     rows = [row_of [('' Unit'', text_cell ''A1''), (''Days Past Due'', number_cell ''0'' 0)]]\<rparr>"

text \<open>The arithmetic of the rate read over the rationals.\<close>

definition rat_truediv :: "int \<Rightarrow> int \<Rightarrow> rat" where
  "rat_truediv a b = of_int a / of_int b"

definition rat_mul :: "rat \<Rightarrow> int \<Rightarrow> rat" where
  "rat_mul x k = x * of_int k"

text \<open>The example units and rentroll resolved, with the example locks attached.\<close>

definition example_units_with_locks :: "lock_status_row list" where
  "example_units_with_locks =
     add_lock_status (snd (determine_unit_status example_units_rows example_rentroll_rows))
       example_locks_rows"

section \<open>Properties\<close>

subsection \<open>Auxiliary facts\<close>

lemma to_dict_map_of: "to_dict kvs = map_of (rev kvs)"
proof -
  have "foldl (\<lambda>m (k, v). m(k \<mapsto> v)) m kvs = m ++ map_of (rev kvs)" for m :: "'a \<rightharpoonup> 'b"
    by (induction kvs arbitrary: m) (auto simp: map_add_upd_left fun_eq_iff map_add_def split: option.splits)
  then show ?thesis by (simp add: to_dict_def)
qed

lemma to_dict_None_iff: "to_dict kvs k = None \<longleftrightarrow> k \<notin> fst ` set kvs"
  by (simp add: to_dict_map_of map_of_eq_None_iff)

lemma load_units_file_rows:
  assumes "load_units_file df = (w, Inr us)"
  shows "us = map (\<lambda>r. \<lparr>Unit = strip (astype_str (r ''Unit'')),
                         Unit_Status = (case status_mapping (Status_Clean r) of
                                          None \<Rightarrow> ''Unknown'' | Some s \<Rightarrow> s)\<rparr>) (rows df)"
  using assms
  by (auto simp: load_units_file_def Let_def fillna_def zip_map2 zip_same_conv_map split: if_splits)

lemma load_units_file_Unit_Status:
  assumes "load_units_file df = (w, Inr us)" and "i < length us"
  shows "Unit_Status (us ! i) \<in> {''Occupied'', ''Vacant'', ''Unknown''}"
    and "Unit_Status (us ! i) = ''Unknown'' \<longleftrightarrow> Status_Clean (rows df ! i) \<notin> {''OCC'', ''VAC''}"
    and "Unit (us ! i) = strip (astype_str ((rows df ! i) ''Unit''))"
  using assms(2) unfolding load_units_file_rows[OF assms(1)]
  by (simp_all add: status_mapping_def)

lemma load_units_file_warnings:
  assumes "load_units_file df = (w, Inr us)"
  shows "\<forall>l \<in> set w. level l = WARNING"
  using assms
  by (auto simp: load_units_file_def Let_def split: if_splits)

lemma load_rentroll_file_warnings:
  assumes "load_rentroll_file df = (w, Inr rr)"
  shows "w = []"
  using assms
  by (auto simp: load_rentroll_file_def Let_def split: if_splits option.splits)

lemma load_locks_file_warnings:
  assumes "load_locks_file df = (w, Inr ls)"
  shows "\<forall>l \<in> set w. level l = WARNING"
  using assms
  by (auto simp: load_locks_file_def Let_def split: if_splits)

lemma get_final_status_absent:
  assumes "Unit_Status row = ''Occupied''" and "m (Unit row) = None"
  shows "get_final_status m row = ([Occupied_not_in_rentroll (Unit row)], ''Vacant'')"
  using assms by (simp add: get_final_status_def Let_def)

lemma final_status_Unknown_iff:
  assumes "Unit_Status row \<in> {''Occupied'', ''Vacant'', ''Unknown''}"
  shows "snd (get_final_status m row) = ''Unknown'' \<longleftrightarrow> Unit_Status row = ''Unknown''"
  using assms by (auto simp: get_final_status_def Let_def split: option.splits)

lemma determine_unit_status_rows:
  "snd (determine_unit_status us rr) =
     map (\<lambda>row. \<lparr>Unit = Unit row, Unit_Status = Unit_Status row,
                   Final_Status = snd (get_final_status
                       (to_dict (map (\<lambda>r. (Unit r, Payment_Status r)) rr)) row)\<rparr>) us"
  by (simp add: determine_unit_status_def Let_def zip_map2 zip_same_conv_map)

lemma determine_unit_status_log:
  "set (fst (determine_unit_status us rr)) =
     (\<Union>row \<in> set us. set (fst (get_final_status
                       (to_dict (map (\<lambda>r. (Unit r, Payment_Status r)) rr)) row)))
     \<union> (if set (map Unit rr) - set (map Unit us) \<noteq> {}
        then {Rentroll_not_in_units (set (map Unit rr) - set (map Unit us))} else {})"
  by (auto simp add: determine_unit_status_def Let_def)

lemma determine_unit_status_warnings:
  "\<forall>l \<in> set (fst (determine_unit_status us rr)). level l = WARNING"
  unfolding determine_unit_status_log
  by (auto simp: get_final_status_def Let_def split: option.splits if_splits)

lemma add_lock_status_rows:
  "add_lock_status us ls =
     map (\<lambda>row. \<lparr>Unit = Unit row, Unit_Status = Unit_Status row,
                   Final_Status = Final_Status row,
                   Actual_Lock_Status =
                     (case to_dict (map (\<lambda>l. (Unit l, Lock_Status l)) ls) (Unit row) of
                        None \<Rightarrow> ''No Lock Assigned'' | Some a \<Rightarrow> a),
                   Expected_Lock_Status = get_expected_lock_status (Final_Status row)\<rparr>) us"
  by (simp add: add_lock_status_def Let_def fillna_def zip_map2 zip_same_conv_map)

lemma detect_miscompares_map:
  "detect_miscompares df =
     map (\<lambda>r. \<lparr>Unit = Unit r, Unit_Status = Unit_Status r, Final_Status = Final_Status r,
                 Actual_Lock_Status = Actual_Lock_Status r,
                 Expected_Lock_Status = Expected_Lock_Status r,
                 Is_Miscompare = is_miscompare r,
                 Miscompare_Severity = get_miscompare_severity
                   \<lparr>Unit = Unit r, Unit_Status = Unit_Status r, Final_Status = Final_Status r,
                    Actual_Lock_Status = Actual_Lock_Status r,
                    Expected_Lock_Status = Expected_Lock_Status r,
                    Is_Miscompare = is_miscompare r\<rparr>\<rparr>) df"
  by (simp add: detect_miscompares_def Let_def)

text \<open>
  On a row of the detector's result, the two added columns are the two row functions
  applied to that very row.
\<close>

lemma in_detect_miscompares:
  assumes "row \<in> set (detect_miscompares df)"
  shows "Is_Miscompare row = is_miscompare row"
    and "Miscompare_Severity row = get_miscompare_severity row"
proof -
  from assms obtain r :: lock_status_row where row: "row =
     \<lparr>Unit = Unit r, Unit_Status = Unit_Status r, Final_Status = Final_Status r,
      Actual_Lock_Status = Actual_Lock_Status r, Expected_Lock_Status = Expected_Lock_Status r,
      Is_Miscompare = is_miscompare r,
      Miscompare_Severity = get_miscompare_severity
        \<lparr>Unit = Unit r, Unit_Status = Unit_Status r, Final_Status = Final_Status r,
         Actual_Lock_Status = Actual_Lock_Status r, Expected_Lock_Status = Expected_Lock_Status r,
         Is_Miscompare = is_miscompare r\<rparr>\<rparr>"
    unfolding detect_miscompares_map by auto
  show "Is_Miscompare row = is_miscompare row"
    by (simp add: row is_miscompare_def Let_def)
  show "Miscompare_Severity row = get_miscompare_severity row"
    by (simp add: row get_miscompare_severity_def Let_def)
qed

text \<open>A successful run, taken apart into its steps.\<close>

lemma run_analysis_Inr:
  assumes "run_analysis self u r l = (lg, Inr t, self')"
  obtains log1 us log2 rr log3 ls where
    "load_units_file u = (log1, Inr us)"
    "load_rentroll_file r = (log2, Inr rr)"
    "load_locks_file l = (log3, Inr ls)"
    "t = detect_miscompares (add_lock_status (snd (determine_unit_status us rr)) ls)"
    "lg = log1 @ log2 @ log3 @ fst (determine_unit_status us rr)"
    "self' = \<lparr>units_df = Some us, rentroll_df = Some rr, locks_df = Some ls, master_df = Some t\<rparr>"
  using assms
  by (auto simp: run_analysis_def Let_def split: prod.splits sum.splits)

lemma table_length:
  "length (detect_miscompares (add_lock_status (snd (determine_unit_status us rr)) ls)) = length us"
  by (simp add: detect_miscompares_map add_lock_status_rows determine_unit_status_rows)

lemma table_row:
  assumes "t = detect_miscompares (add_lock_status (snd (determine_unit_status us rr)) ls)"
    and "i < length us"
  shows "Unit (t ! i) = Unit (us ! i)"
    and "Unit_Status (t ! i) = Unit_Status (us ! i)"
    and "Final_Status (t ! i) =
           snd (get_final_status (to_dict (map (\<lambda>r. (Unit r, Payment_Status r)) rr)) (us ! i))"
    and "Actual_Lock_Status (t ! i) =
           (case to_dict (map (\<lambda>l. (Unit l, Lock_Status l)) ls) (Unit (us ! i)) of
              None \<Rightarrow> ''No Lock Assigned'' | Some a \<Rightarrow> a)"
    and "Expected_Lock_Status (t ! i) = get_expected_lock_status (Final_Status (t ! i))"
  using assms(2) unfolding assms(1)
  by (simp_all add: detect_miscompares_map add_lock_status_rows determine_unit_status_rows)

lemma sum_list_flags:
  "sum_list (map (\<lambda>row. if P row then 1 else 0) df) = int (length (filter P df))"
  by (induction df) simp_all

text \<open>The example files run through the analyzer.\<close>

lemma example_run:
  "run_analysis init example_units example_rentroll example_locks
     = (example_log, Inr example_table, example_analyzer)"
  by code_simp

lemma example_detect: "detect_miscompares example_units_with_locks = example_table"
  by code_simp

subsection \<open>One row for each row of the units file\<close>

text \<open>
  C1, as stated: when the units file names a unit on several rows, the final table still
  has exactly one row for each distinct unit. The analyzer does not do that: nothing in it
  merges or drops rows of the units table. On the units file \<open>duplicate_units\<close>, whose
  two rows both name \<open>A1\<close> once trimmed, the run succeeds and its table has two rows for
  \<open>A1\<close>.
\<close>

theorem duplicate_unit_rows_counterexample:
  "\<not> isl (fst (snd (run_analysis init duplicate_units example_rentroll example_locks)))
   \<and> map Unit (projr (fst (snd (run_analysis init duplicate_units example_rentroll example_locks))))
       = [''A1'', ''A1'']
   \<and> \<not> distinct
         (map Unit (projr (fst (snd (run_analysis init duplicate_units example_rentroll example_locks)))))"
  by code_simp

text \<open>
  C1, amended: the final table has one row for each row of the units file, in the file's
  order, with that row's trimmed unit; so the units of the table are pairwise distinct
  exactly when the trimmed units of the file are. (The units file has a row at least.)
\<close>

theorem one_row_per_units_row:
  assumes "run_analysis self units rentroll locks = (lg, Inr table, self')"
    and "rows units \<noteq> []"
  shows "map Unit table = map (\<lambda>r. strip (astype_str (r ''Unit''))) (rows units)
       \<and> (distinct (map Unit table)
            \<longleftrightarrow> distinct (map (\<lambda>r. strip (astype_str (r ''Unit''))) (rows units)))"
proof -
  from assms(1) obtain log1 us log2 rr log3 ls where
    u: "load_units_file units = (log1, Inr us)" and
    "load_rentroll_file rentroll = (log2, Inr rr)" and
    "load_locks_file locks = (log3, Inr ls)" and
    t: "table = detect_miscompares (add_lock_status (snd (determine_unit_status us rr)) ls)"
    by (rule run_analysis_Inr)
  have len: "length table = length us"
    unfolding t by (rule table_length)
  have "map Unit table = map Unit us"
    by (rule nth_equalityI) (simp_all add: len table_row(1)[OF t])
  also have "\<dots> = map (\<lambda>r. strip (astype_str (r ''Unit''))) (rows units)"
    by (simp add: load_units_file_rows[OF u] comp_def)
  finally have "map Unit table = map (\<lambda>r. strip (astype_str (r ''Unit''))) (rows units)" .
  then show ?thesis by simp
qed

theorem one_row_per_units_row_witness:
  "run_analysis init example_units example_rentroll example_locks
     = (example_log, Inr example_table, example_analyzer)
   \<and> rows example_units \<noteq> []
   \<and> map Unit example_table = map (\<lambda>r. strip (astype_str (r ''Unit''))) (rows example_units)
   \<and> (distinct (map Unit example_table)
        \<longleftrightarrow> distinct (map (\<lambda>r. strip (astype_str (r ''Unit''))) (rows example_units)))
   \<and> map Unit example_table = [''A1'', ''B2'', ''C3'', ''D4'', ''E5'']"
proof -
  have nonempty: "rows example_units \<noteq> []"
    by (simp add: example_units_def)
  have units: "map Unit example_table = [''A1'', ''B2'', ''C3'', ''D4'', ''E5'']"
    by (simp add: example_table_def)
  from one_row_per_units_row[OF example_run nonempty] example_run nonempty units
  show ?thesis by blast
qed

subsection \<open>The miscompare flag\<close>

text \<open>
  C2: on every row of the detector's result whose final status is Occupied-Delinquent,
  the miscompare flag is false if and only if the actual lock status is
  "Assigned Overlock" or "Assigned Auction".
\<close>

theorem delinquent_miscompare_iff:
  assumes "row \<in> set (detect_miscompares df)"
    and "Final_Status row = ''Occupied-Delinquent''"
  shows "(\<not> Is_Miscompare row) \<longleftrightarrow>
           Actual_Lock_Status row \<in> {''Assigned Overlock'', ''Assigned Auction''}"
  using assms(2) by (simp add: in_detect_miscompares(1)[OF assms(1)] is_miscompare_def Let_def)

theorem delinquent_miscompare_iff_witness:
  "example_table ! 4 \<in> set (detect_miscompares example_units_with_locks)
   \<and> Final_Status (example_table ! 4) = ''Occupied-Delinquent''
   \<and> ((\<not> Is_Miscompare (example_table ! 4)) \<longleftrightarrow>
        Actual_Lock_Status (example_table ! 4) \<in> {''Assigned Overlock'', ''Assigned Auction''})
   \<and> \<not> Is_Miscompare (example_table ! 4)"
proof -
  have member: "example_table ! 4 \<in> set (detect_miscompares example_units_with_locks)"
    unfolding example_detect by (simp add: example_table_def)
  have final: "Final_Status (example_table ! 4) = ''Occupied-Delinquent''"
    by (simp add: example_table_def)
  have flag: "\<not> Is_Miscompare (example_table ! 4)"
    by (simp add: example_table_def)
  from delinquent_miscompare_iff[OF member final] member final flag
  show ?thesis by blast
qed

text \<open>
  C6: on every row of the detector's result whose final status is Unknown, the miscompare
  flag is false, whatever the actual lock status is.
\<close>

theorem unknown_never_miscompare:
  assumes "row \<in> set (detect_miscompares df)"
    and "Final_Status row = ''Unknown''"
  shows "\<not> Is_Miscompare row"
  using assms(2) by (simp add: in_detect_miscompares(1)[OF assms(1)] is_miscompare_def Let_def)

theorem unknown_never_miscompare_witness:
  "example_table ! 2 \<in> set (detect_miscompares example_units_with_locks)
   \<and> Final_Status (example_table ! 2) = ''Unknown''
   \<and> \<not> Is_Miscompare (example_table ! 2)"
proof -
  have member: "example_table ! 2 \<in> set (detect_miscompares example_units_with_locks)"
    unfolding example_detect by (simp add: example_table_def)
  have final: "Final_Status (example_table ! 2) = ''Unknown''"
    by (simp add: example_table_def)
  from unknown_never_miscompare[OF member final] member final
  show ?thesis by blast
qed

subsection \<open>Severity\<close>

text \<open>
  C3: on every row flagged as a miscompare, the severity is that of the first rule that
  matches: Vacant with "Tenant Using Lock" or "Assigned Overlock" is
  "HIGH - Vacant unit with tenant lock"; Occupied-Current with "Assigned Vacant" or
  "Assigned Overlock" is "HIGH - Current tenant without proper lock";
  Occupied-Delinquent with "Assigned Vacant" is "HIGH - Delinquent unit without lock";
  every other miscompare is "MEDIUM - Lock status mismatch".
\<close>

theorem severity_first_matching_rule:
  assumes "row \<in> set (detect_miscompares df)"
    and "Is_Miscompare row"
  shows "Miscompare_Severity row =
     (if Final_Status row = ''Vacant''
         \<and> Actual_Lock_Status row \<in> {''Tenant Using Lock'', ''Assigned Overlock''}
      then ''HIGH - Vacant unit with tenant lock''
      else if Final_Status row = ''Occupied-Current''
              \<and> Actual_Lock_Status row \<in> {''Assigned Vacant'', ''Assigned Overlock''}
      then ''HIGH - Current tenant without proper lock''
      else if Final_Status row = ''Occupied-Delinquent''
              \<and> Actual_Lock_Status row = ''Assigned Vacant''
      then ''HIGH - Delinquent unit without lock''
      else ''MEDIUM - Lock status mismatch'')"
proof -
  have "Miscompare_Severity row = get_miscompare_severity row"
    by (rule in_detect_miscompares(2)[OF assms(1)])
  also have "\<dots> = (let actual = Actual_Lock_Status row; final_status = Final_Status row in
         if final_status = ''Vacant'' \<and> actual \<in> set [''Tenant Using Lock'', ''Assigned Overlock'']
         then ''HIGH - Vacant unit with tenant lock''
         else if final_status = ''Occupied-Current''
                 \<and> actual \<in> set [''Assigned Vacant'', ''Assigned Overlock'']
         then ''HIGH - Current tenant without proper lock''
         else if final_status = ''Occupied-Delinquent'' \<and> actual = ''Assigned Vacant''
         then ''HIGH - Delinquent unit without lock''
         else ''MEDIUM - Lock status mismatch'')"
    unfolding get_miscompare_severity_def using assms(2) by (simp only: if_False simp_thms)
  also have "\<dots> = (if Final_Status row = ''Vacant''
         \<and> Actual_Lock_Status row \<in> {''Tenant Using Lock'', ''Assigned Overlock''}
      then ''HIGH - Vacant unit with tenant lock''
      else if Final_Status row = ''Occupied-Current''
              \<and> Actual_Lock_Status row \<in> {''Assigned Vacant'', ''Assigned Overlock''}
      then ''HIGH - Current tenant without proper lock''
      else if Final_Status row = ''Occupied-Delinquent''
              \<and> Actual_Lock_Status row = ''Assigned Vacant''
      then ''HIGH - Delinquent unit without lock''
      else ''MEDIUM - Lock status mismatch'')"
    by (simp only: Let_def list.set)
  finally show ?thesis .
qed

theorem severity_first_matching_rule_witness:
  "example_table ! 0 \<in> set (detect_miscompares example_units_with_locks)
   \<and> Is_Miscompare (example_table ! 0)
   \<and> Final_Status (example_table ! 0) = ''Vacant''
   \<and> Actual_Lock_Status (example_table ! 0) = ''Tenant Using Lock''
   \<and> Miscompare_Severity (example_table ! 0) = ''HIGH - Vacant unit with tenant lock''"
proof -
  have member: "example_table ! 0 \<in> set (detect_miscompares example_units_with_locks)"
    unfolding example_detect by (simp add: example_table_def)
  have flag: "Is_Miscompare (example_table ! 0)"
    by (simp add: example_table_def)
  have final: "Final_Status (example_table ! 0) = ''Vacant''"
    by (simp add: example_table_def)
  have actual: "Actual_Lock_Status (example_table ! 0) = ''Tenant Using Lock''"
    by (simp add: example_table_def)
  have "Miscompare_Severity (example_table ! 0) = ''HIGH - Vacant unit with tenant lock''"
    unfolding severity_first_matching_rule[OF member flag] by (simp add: final actual)
  with member flag final actual show ?thesis by blast
qed

text \<open>
  C10: on every row of the detector's result whose final status is Vacant,
  Occupied-Current or Occupied-Delinquent and whose actual lock status is none of the four
  valid lock statuses (so also "No Lock Assigned", which a unit without a row in the locks
  table gets), the miscompare flag is true and the severity is
  "MEDIUM - Lock status mismatch".
\<close>

theorem outside_closed_set_is_medium:
  assumes "row \<in> set (detect_miscompares df)"
    and "Final_Status row \<in> {''Vacant'', ''Occupied-Current'', ''Occupied-Delinquent''}"
    and "Actual_Lock_Status row \<notin> set valid_lock_statuses"
  shows "Is_Miscompare row \<and> Miscompare_Severity row = ''MEDIUM - Lock status mismatch''"
proof -
  from assms(3) have a: "Actual_Lock_Status row \<noteq> ''Assigned Vacant''"
    "Actual_Lock_Status row \<noteq> ''Tenant Using Lock''"
    "Actual_Lock_Status row \<noteq> ''Assigned Auction''"
    "Actual_Lock_Status row \<noteq> ''Assigned Overlock''"
    by (simp_all add: valid_lock_statuses_def)
  have m: "is_miscompare row"
    using assms(2) a by (auto simp: is_miscompare_def Let_def)
  then have "Is_Miscompare row"
    by (simp add: in_detect_miscompares(1)[OF assms(1)])
  moreover from this have "get_miscompare_severity row = ''MEDIUM - Lock status mismatch''"
    using a by (simp add: get_miscompare_severity_def Let_def)
  ultimately show ?thesis
    by (simp add: in_detect_miscompares(2)[OF assms(1)])
qed

theorem outside_closed_set_is_medium_witness:
  "example_table ! 1 \<in> set (detect_miscompares example_units_with_locks)
   \<and> Final_Status (example_table ! 1) = ''Occupied-Delinquent''
   \<and> Actual_Lock_Status (example_table ! 1) = ''No Lock Assigned''
   \<and> Actual_Lock_Status (example_table ! 1) \<notin> set valid_lock_statuses
   \<and> Is_Miscompare (example_table ! 1)
   \<and> Miscompare_Severity (example_table ! 1) = ''MEDIUM - Lock status mismatch''"
proof -
  have member: "example_table ! 1 \<in> set (detect_miscompares example_units_with_locks)"
    unfolding example_detect by (simp add: example_table_def)
  have final: "Final_Status (example_table ! 1) = ''Occupied-Delinquent''"
    by (simp add: example_table_def)
  then have status: "Final_Status (example_table ! 1)
      \<in> {''Vacant'', ''Occupied-Current'', ''Occupied-Delinquent''}"
    by simp
  have actual: "Actual_Lock_Status (example_table ! 1) = ''No Lock Assigned''"
    by (simp add: example_table_def)
  then have outside: "Actual_Lock_Status (example_table ! 1) \<notin> set valid_lock_statuses"
    by (simp add: valid_lock_statuses_def)
  from outside_closed_set_is_medium[OF member status outside] member final actual outside
  show ?thesis by blast
qed

subsection \<open>Occupied units without a rentroll row\<close>

text \<open>
  C5: a unit whose occupancy is Occupied and whose unit is not a key of the rentroll
  mapping gets the final status Vacant; the logger receives a record of level WARNING for
  that unit and the run logs no record of level ERROR (it succeeds); the lock comparison
  of that row is the one of Vacant: the expected lock status is "Assigned Vacant" and the
  row is a miscompare exactly when its actual lock status is another one.
\<close>

theorem occupied_absent_from_rentroll_is_vacant:
  assumes "run_analysis self units rentroll locks = (lg, Inr table, self')"
    and "i < length table"
    and "Unit_Status (table ! i) = ''Occupied''"
    and "rentroll_df self' = Some rentroll_rows"
    and "Unit (table ! i) \<notin> set (map Unit rentroll_rows)"
  shows "Final_Status (table ! i) = ''Vacant''
       \<and> Expected_Lock_Status (table ! i) = ''Assigned Vacant''
       \<and> (Is_Miscompare (table ! i) \<longleftrightarrow> Actual_Lock_Status (table ! i) \<noteq> ''Assigned Vacant'')
       \<and> Occupied_not_in_rentroll (Unit (table ! i)) \<in> set lg
       \<and> level (Occupied_not_in_rentroll (Unit (table ! i))) = WARNING
       \<and> (\<forall>l \<in> set lg. level l \<noteq> ERROR)"
proof -
  from assms(1) obtain log1 us log2 rr log3 ls where
    u: "load_units_file units = (log1, Inr us)" and
    r: "load_rentroll_file rentroll = (log2, Inr rr)" and
    l: "load_locks_file locks = (log3, Inr ls)" and
    t: "table = detect_miscompares (add_lock_status (snd (determine_unit_status us rr)) ls)" and
    lg: "lg = log1 @ log2 @ log3 @ fst (determine_unit_status us rr)" and
    s: "self' = \<lparr>units_df = Some us, rentroll_df = Some rr, locks_df = Some ls,
                  master_df = Some table\<rparr>"
    by (rule run_analysis_Inr)
  let ?m = "to_dict (map (\<lambda>r. (Unit r, Payment_Status r)) rr)"
  have i: "i < length us"
    using assms(2) unfolding t by (simp add: table_length)
  have rr: "rentroll_rows = rr"
    using assms(4) by (simp add: s)
  have occ: "Unit_Status (us ! i) = ''Occupied''"
    using assms(3) by (simp add: table_row(2)[OF t i])
  have "Unit (us ! i) \<notin> set (map Unit rr)"
    using assms(5) by (simp add: table_row(1)[OF t i] rr)
  then have absent: "?m (Unit (us ! i)) = None"
    by (simp add: to_dict_None_iff image_image)
  have g: "get_final_status ?m (us ! i) = ([Occupied_not_in_rentroll (Unit (us ! i))], ''Vacant'')"
    using occ absent by (rule get_final_status_absent[where m = ?m and row = "us ! i"])
  have final: "Final_Status (table ! i) = ''Vacant''"
    by (simp add: table_row(3)[OF t i] g)
  have expected: "Expected_Lock_Status (table ! i) = ''Assigned Vacant''"
    by (simp add: table_row(5)[OF t i] final get_expected_lock_status_def)
  have "table ! i \<in> set (detect_miscompares (add_lock_status (snd (determine_unit_status us rr)) ls))"
    using assms(2) t by simp
  then have "Is_Miscompare (table ! i) = is_miscompare (table ! i)"
    by (rule in_detect_miscompares(1))
  then have flag: "Is_Miscompare (table ! i) \<longleftrightarrow> Actual_Lock_Status (table ! i) \<noteq> ''Assigned Vacant''"
    by (simp add: is_miscompare_def Let_def final)
  have "us ! i \<in> set us"
    using i by simp
  then have "Occupied_not_in_rentroll (Unit (us ! i)) \<in> set (fst (determine_unit_status us rr))"
    unfolding determine_unit_status_log using g by force
  then have warned: "Occupied_not_in_rentroll (Unit (table ! i)) \<in> set lg"
    by (simp add: lg table_row(1)[OF t i])
  have "\<forall>l \<in> set lg. level l = WARNING"
    using load_units_file_warnings[OF u] load_rentroll_file_warnings[OF r]
      load_locks_file_warnings[OF l] determine_unit_status_warnings[of us rr]
    by (auto simp: lg)
  then have no_error: "\<forall>l \<in> set lg. level l \<noteq> ERROR"
    by simp
  from final expected flag warned no_error show ?thesis
    by simp
qed

theorem occupied_absent_from_rentroll_is_vacant_witness:
  "run_analysis init example_units example_rentroll example_locks
     = (example_log, Inr example_table, example_analyzer)
   \<and> 0 < length example_table
   \<and> Unit_Status (example_table ! 0) = ''Occupied''
   \<and> rentroll_df example_analyzer = Some example_rentroll_rows
   \<and> Unit (example_table ! 0) \<notin> set (map Unit example_rentroll_rows)
   \<and> Final_Status (example_table ! 0) = ''Vacant''
   \<and> Expected_Lock_Status (example_table ! 0) = ''Assigned Vacant''
   \<and> (Is_Miscompare (example_table ! 0)
        \<longleftrightarrow> Actual_Lock_Status (example_table ! 0) \<noteq> ''Assigned Vacant'')
   \<and> Occupied_not_in_rentroll (Unit (example_table ! 0)) \<in> set example_log
   \<and> level (Occupied_not_in_rentroll (Unit (example_table ! 0))) = WARNING
   \<and> map level example_log = [WARNING, WARNING, WARNING]"
proof -
  have levels: "map level example_log = [WARNING, WARNING, WARNING]"
    by (simp add: example_log_def)
  have len: "0 < length example_table"
    by (simp add: example_table_def)
  have occ: "Unit_Status (example_table ! 0) = ''Occupied''"
    by (simp add: example_table_def)
  have rr: "rentroll_df example_analyzer = Some example_rentroll_rows"
    by (simp add: example_analyzer_def)
  have absent: "Unit (example_table ! 0) \<notin> set (map Unit example_rentroll_rows)"
    by (simp add: example_table_def example_rentroll_rows_def)
  from occupied_absent_from_rentroll_is_vacant[OF example_run len occ rr absent]
    example_run len occ rr absent levels
  show ?thesis by blast
qed

subsection \<open>Unknown final status\<close>

text \<open>
  C7: on every row of the final table, the final status is Unknown if and only if the
  unit's occupancy is Unknown, and the occupancy is Unknown if and only if the first three
  characters of the unit's status, in upper case, are neither "OCC" nor "VAC".
\<close>

theorem final_status_Unknown_iff_occupancy_Unknown:
  assumes "run_analysis self units rentroll locks = (lg, Inr table, self')"
    and "i < length table"
  shows "(Final_Status (table ! i) = ''Unknown'' \<longleftrightarrow> Unit_Status (table ! i) = ''Unknown'')
       \<and> (Unit_Status (table ! i) = ''Unknown''
            \<longleftrightarrow> upper (take 3 (astype_str ((rows units ! i) ''Status''))) \<notin> {''OCC'', ''VAC''})"
proof -
  from assms(1) obtain log1 us log2 rr log3 ls where
    u: "load_units_file units = (log1, Inr us)" and
    "load_rentroll_file rentroll = (log2, Inr rr)" and
    "load_locks_file locks = (log3, Inr ls)" and
    t: "table = detect_miscompares (add_lock_status (snd (determine_unit_status us rr)) ls)"
    by (rule run_analysis_Inr)
  have i: "i < length us"
    using assms(2) unfolding t by (simp add: table_length)
  have "Final_Status (table ! i) = ''Unknown'' \<longleftrightarrow> Unit_Status (table ! i) = ''Unknown''"
    unfolding table_row(2,3)[OF t i]
    by (rule final_status_Unknown_iff) (rule load_units_file_Unit_Status(1)[OF u i])
  moreover have "Unit_Status (table ! i) = ''Unknown''
      \<longleftrightarrow> upper (take 3 (astype_str ((rows units ! i) ''Status''))) \<notin> {''OCC'', ''VAC''}"
    unfolding table_row(2)[OF t i] load_units_file_Unit_Status(2)[OF u i] Status_Clean_def ..
  ultimately show ?thesis ..
qed

theorem final_status_Unknown_iff_occupancy_Unknown_witness:
  "run_analysis init example_units example_rentroll example_locks
     = (example_log, Inr example_table, example_analyzer)
   \<and> 2 < length example_table
   \<and> (Final_Status (example_table ! 2) = ''Unknown''
        \<longleftrightarrow> Unit_Status (example_table ! 2) = ''Unknown'')
   \<and> (Unit_Status (example_table ! 2) = ''Unknown''
        \<longleftrightarrow> upper (take 3 (astype_str ((rows example_units ! 2) ''Status'')))
             \<notin> {''OCC'', ''VAC''})
   \<and> Final_Status (example_table ! 2) = ''Unknown''"
proof -
  have len: "2 < length example_table"
    by (simp add: example_table_def)
  have final: "Final_Status (example_table ! 2) = ''Unknown''"
    by (simp add: example_table_def)
  from final_status_Unknown_iff_occupancy_Unknown[OF example_run len] example_run len final
  show ?thesis by blast
qed

subsection \<open>The summary\<close>

text \<open>
  C8: for a table with a row at least, the summary's miscompare count is the number of
  rows whose miscompare flag is true, and its miscompare rate is that number divided by
  the number of rows, times 100 (the division and the product being the runtime's).
\<close>

theorem miscompare_rate_formula:
  assumes "df \<noteq> []"
  shows "miscompare_count (generate_summary_report truediv mul df)
           = int (length (filter Is_Miscompare df))
       \<and> total_units (generate_summary_report truediv mul df) = int (length df)
       \<and> miscompare_rate (generate_summary_report truediv mul df)
           = mul (truediv (int (length (filter Is_Miscompare df))) (int (length df))) 100"
  by (simp add: generate_summary_report_def sum_list_flags)

theorem miscompare_rate_formula_witness:
  "example_table \<noteq> []
   \<and> miscompare_count (generate_summary_report rat_truediv rat_mul example_table) = 2
   \<and> total_units (generate_summary_report rat_truediv rat_mul example_table) = 5
   \<and> miscompare_rate (generate_summary_report rat_truediv rat_mul example_table) = 40"
proof -
  have nonempty: "example_table \<noteq> []"
    by (simp add: example_table_def)
  have count: "int (length (filter Is_Miscompare example_table)) = 2"
    by (simp add: example_table_def)
  have total: "int (length example_table) = 5"
    by (simp add: example_table_def)
  from miscompare_rate_formula[OF nonempty, of rat_truediv rat_mul] nonempty
  show ?thesis
    unfolding count total by (simp add: rat_truediv_def rat_mul_def)
qed

subsection \<open>Determinism\<close>

text \<open>
  C9: the table (or the exception) of a run depends on the three inputs only, not on the
  analyzer object the run starts from. So two runs on the same inputs give the same
  table, also when the second run is made on the object as the first run left it.
\<close>

theorem run_analysis_deterministic:
  "fst (snd (run_analysis self' units rentroll locks))
     = fst (snd (run_analysis self units rentroll locks))
   \<and> fst (snd (run_analysis (snd (snd (run_analysis self units rentroll locks)))
                  units rentroll locks))
     = fst (snd (run_analysis self units rentroll locks))"
  by (auto simp: run_analysis_def Let_def split: prod.splits sum.splits)

theorem run_analysis_deterministic_witness:
  "fst (snd (run_analysis example_analyzer example_units example_rentroll example_locks))
     = fst (snd (run_analysis init example_units example_rentroll example_locks))
   \<and> fst (snd (run_analysis init example_units example_rentroll example_locks))
     = Inr example_table"
  using run_analysis_deterministic[of example_analyzer example_units example_rentroll
      example_locks init]
  by (simp add: example_run)

subsection \<open>Column names\<close>

text \<open>
  C4, as stated, wants the loaders to find the identifying columns whatever their casing,
  surrounding whitespace and quoting. The column check of the web application accepts
  such files, and the rentroll loader accepts capitals and quotes; but the units and locks
  loaders look the names up as they are written, and the rentroll loader does not trim.
  A units file and a locks file with headers in capitals, and a rentroll file whose unit
  header has a leading blank, pass the column check and then fail to load, with an error
  that names columns the file has.
\<close>

theorem loaders_reject_equivalent_columns:
  "validate_csv_file capital_units [''Unit'', ''Status''] = (True, [])
   \<and> snd (load_units_file capital_units)
       = Inl (ValueError_missing_columns ''units.csv'' [''Unit'', ''Status''])
   \<and> validate_csv_file capital_locks [''Unit Number'', ''Status''] = (True, [])
   \<and> snd (load_locks_file capital_locks)
       = Inl (ValueError_missing_columns ''locks.csv'' [''Unit Number'', ''Status''])
   \<and> validate_csv_file capital_rentroll [''Unit'', ''Days Past Due''] = (True, [])
   \<and> snd (load_rentroll_file capital_rentroll)
       = Inr [\<lparr>Unit = ''A1'', Days_Past_Due_Clean = 0, Payment_Status = ''Current''\<rparr>]
   \<and> validate_csv_file blank_rentroll [''Unit'', ''Days Past Due''] = (True, [])
   \<and> snd (load_rentroll_file blank_rentroll)
       = Inl (ValueError_missing_columns ''rentroll.csv'' [''Unit''])"
  by code_simp

end
